theory Spec2Isabelle
  imports Main
begin

section \<open>Python strings and values\<close>

text \<open>
  A Python \<open>str\<close> is a sequence of Unicode code points, so it is modelled as a list of
  naturals; \<open>ustr\<close> reads an ASCII literal. The line feed is code point 10, the double
  quote 34, the backslash 92.
\<close>

type_synonym pystr = "nat list"

definition ustr :: "string \<Rightarrow> pystr" where
  "ustr s = map of_char s"

text \<open>
  \<open>str.isspace\<close> for one code point, which is what \<open>str.strip()\<close> without an argument
  removes: the code points CPython's \<open>_PyUnicode_IsWhitespace\<close> lists.
\<close>

definition isspace :: "nat \<Rightarrow> bool" where
  "isspace c \<longleftrightarrow>
     (9 \<le> c \<and> c \<le> 13) \<or> (28 \<le> c \<and> c \<le> 32) \<or> c = 133 \<or> c = 160 \<or> c = 5760 \<or>
     (8192 \<le> c \<and> c \<le> 8202) \<or> c = 8232 \<or> c = 8233 \<or> c = 8239 \<or> c = 8287 \<or> c = 12288"

definition lstrip :: "pystr \<Rightarrow> pystr" where
  "lstrip s = dropWhile isspace s"

definition rstrip :: "pystr \<Rightarrow> pystr" where
  "rstrip s = rev (dropWhile isspace (rev s))"

definition strip :: "pystr \<Rightarrow> pystr" where
  "strip s = rstrip (lstrip s)"

text \<open>\<open>sep.join(items)\<close>: the separator stands between consecutive items only.\<close>

fun join :: "pystr \<Rightarrow> pystr list \<Rightarrow> pystr" where
  "join sep [] = []"
| "join sep [x] = x"
| "join sep (x # y # ys) = x @ sep @ join sep (y # ys)"

text \<open>
  The values the library's attributes hold: a \<open>str\<close> or \<open>None\<close>. \<open>None\<close> and the empty
  string are falsy, every other string is truthy; \<open>a or b\<close> is \<open>a\<close> when \<open>a\<close> is truthy
  and \<open>b\<close> otherwise.
\<close>

datatype pyval = PyNone | PyStr pystr

fun truthy :: "pyval \<Rightarrow> bool" where
  "truthy PyNone = False"
| "truthy (PyStr s) = (s \<noteq> [])"

definition py_or :: "pyval \<Rightarrow> pyval \<Rightarrow> pyval" where
  "py_or a b = (if truthy a then a else b)"

text \<open>
  An exception caught by \<open>except Exception\<close>; the program reads nothing of it but
  \<open>str(exc)\<close>, through the f-string.
\<close>

datatype exc = Exc (exc_str: pystr)

text \<open>The method call \<open>v.strip()\<close>: \<open>None\<close> has no such attribute.\<close>

fun py_strip :: "pyval \<Rightarrow> exc + pystr" where
  "py_strip (PyStr s) = Inr (strip s)"
| "py_strip PyNone =
     Inl (Exc ([39] @ ustr ''NoneType'' @ [39] @ ustr '' object has no attribute '' @
               [39] @ ustr ''strip'' @ [39]))"

section \<open>What the library returns\<close>

text \<open>
  A segment, of which only the \<open>text\<close> attribute is read; the lazy sequence of segments,
  which yields one segment at a time and may raise instead of yielding the next (the
  audio is finite, so the sequence is); and the info object, whose \<open>language\<close>
  attribute may be missing (\<open>None\<close> in the model) since the program reads it with
  \<open>getattr\<close> and a default.
\<close>

record segment =
  seg_text :: pyval

datatype segments = SegEnd | SegYield segment segments | SegRaise exc

record info =
  info_language :: "pyval option"

definition getattr_language :: "info \<Rightarrow> pyval \<Rightarrow> pyval" where
  "getattr_language i dflt = (case info_language i of None \<Rightarrow> dflt | Some v \<Rightarrow> v)"

text \<open>The exception with which the sequence ends, if it ends with one.\<close>

fun raised :: "segments \<Rightarrow> exc option" where
  "raised SegEnd = None"
| "raised (SegRaise e) = Some e"
| "raised (SegYield s rest) = raised rest"

text \<open>A sequence that yields segments with the given texts and then ends.\<close>

fun yields :: "pyval list \<Rightarrow> segments" where
  "yields [] = SegEnd"
| "yields (t # ts) = SegYield \<lparr>seg_text = t\<rparr> (yields ts)"

section \<open>Line 37: the text of the segments\<close>

text \<open>
  The generator expression \<open>(segment.text or "").strip() for segment in segments\<close>,
  consumed by \<open>join\<close>: the fragments in the order yielded, or the first exception.
\<close>

fun fragments :: "segments \<Rightarrow> exc + pystr list" where
  "fragments SegEnd = Inr []"
| "fragments (SegRaise e) = Inl e"
| "fragments (SegYield s rest) =
     (case py_strip (py_or (seg_text s) (PyStr [])) of
        Inl e \<Rightarrow> Inl e
      | Inr f \<Rightarrow> (case fragments rest of Inl e \<Rightarrow> Inl e | Inr fs \<Rightarrow> Inr (f # fs)))"

definition segments_text :: "segments \<Rightarrow> exc + pystr" where
  "segments_text segs =
     (case fragments segs of Inl e \<Rightarrow> Inl e | Inr fs \<Rightarrow> Inr (strip (join (ustr '' '') fs)))"

section \<open>Line 42: the JSON line\<close>

text \<open>
  \<open>json.dumps(payload, ensure_ascii=False)\<close> on a dict of strings. In a string the double
  quote, the backslash and the control characters below 32 are escaped (with the short
  forms for backspace, tab, line feed, form feed and carriage return, and \<open>\u00XX\<close> in
  lower-case hexadecimal for the others); every other code point is written as it is.
  Items are separated by a comma and a space, key and value by a colon and a space, in
  the order of insertion.
\<close>

definition hex_digit :: "nat \<Rightarrow> nat" where
  "hex_digit d = (if d < 10 then 48 + d else 87 + d)"

definition json_escape :: "nat \<Rightarrow> pystr" where
  "json_escape c =
     (if c = 34 then [92, 34]
      else if c = 92 then [92, 92]
      else if c = 8 then [92, 98]
      else if c = 12 then [92, 102]
      else if c = 10 then [92, 110]
      else if c = 13 then [92, 114]
      else if c = 9 then [92, 116]
      else if c < 32 then [92, 117, 48, 48, hex_digit (c div 16), hex_digit (c mod 16)]
      else [c])"

definition json_str :: "pystr \<Rightarrow> pystr" where
  "json_str s = [34] @ concat (map json_escape s) @ [34]"

fun json_value :: "pyval \<Rightarrow> pystr" where
  "json_value PyNone = ustr ''null''"
| "json_value (PyStr s) = json_str s"

definition json_item :: "pystr \<times> pyval \<Rightarrow> pystr" where
  "json_item kv = json_str (fst kv) @ ustr '': '' @ json_value (snd kv)"

definition json_dumps :: "(pystr \<times> pyval) list \<Rightarrow> pystr" where
  "json_dumps d = ustr ''{'' @ join (ustr '', '') (map json_item d) @ ustr ''}''"

text \<open>\<open>print(s, file=f)\<close> writes the string and a line feed to the stream.\<close>

definition print_line :: "pystr \<Rightarrow> pystr" where
  "print_line s = s @ [10]"

text \<open>
  Lines 38 to 41: the payload, a dict of two items in this order. The language is
  \<open>getattr(info, "language", "") or ""\<close>.
\<close>

definition payload_language :: "info \<Rightarrow> pyval" where
  "payload_language i = py_or (getattr_language i (PyStr [])) (PyStr [])"

definition payload :: "pystr \<Rightarrow> info \<Rightarrow> (pystr \<times> pyval) list" where
  "payload txt i = [(ustr ''text'', PyStr txt), (ustr ''language'', payload_language i)]"

section \<open>parse\_args\<close>

text \<open>
  The seven options the parser declares, and the namespace they fill. Every option takes
  one value; \<open>--audio\<close> and \<open>--language\<close> have no default (\<open>None\<close>).
\<close>

datatype flag = Audio | Model | Device | ComputeType | Language | BeamSize | VadFilter

record args =
  audio :: pyval
  model :: pystr
  device :: pystr
  compute_type :: pystr
  language :: pyval
  beam_size :: int
  vad_filter :: pystr

definition defaults :: args where
  "defaults = \<lparr>audio = PyNone, model = ustr ''small'', device = ustr ''auto'',
     compute_type = ustr ''int8'', language = PyNone, beam_size = 1,
     vad_filter = ustr ''true''\<rparr>"

text \<open>
  The command line as \<open>ArgumentParser\<close> reads it, from left to right: an option with its
  value (however it is spelled: in full, abbreviated, or as \<open>--flag=value\<close>), the
  \<open>-h\<close>/\<open>--help\<close> option that the constructor of line 8 adds by default, an option that
  stands without its value, or a string that is no option of this parser.
\<close>

datatype item = Opt flag pystr | Help | NoValue flag | Unrecognized pystr

text \<open>
  Storing one option's value. \<open>--beam-size\<close> has \<open>type=int\<close>: the value goes through
  Python's \<open>int\<close>, here the parameter \<open>conv\<close>, which gives \<open>None\<close> where \<open>int\<close> raises
  \<open>ValueError\<close>. \<open>--vad-filter\<close> has \<open>choices=["true", "false"]\<close>. \<open>None\<close> is the
  parser's error.
\<close>

fun store :: "(pystr \<Rightarrow> int option) \<Rightarrow> flag \<Rightarrow> pystr \<Rightarrow> args \<Rightarrow> args option" where
  "store conv Audio t ns = Some (ns\<lparr>audio := PyStr t\<rparr>)"
| "store conv Model t ns = Some (ns\<lparr>model := t\<rparr>)"
| "store conv Device t ns = Some (ns\<lparr>device := t\<rparr>)"
| "store conv ComputeType t ns = Some (ns\<lparr>compute_type := t\<rparr>)"
| "store conv Language t ns = Some (ns\<lparr>language := PyStr t\<rparr>)"
| "store conv BeamSize t ns =
     (case conv t of None \<Rightarrow> None | Some n \<Rightarrow> Some (ns\<lparr>beam_size := n\<rparr>))"
| "store conv VadFilter t ns =
     (if t = ustr ''true'' \<or> t = ustr ''false'' then Some (ns\<lparr>vad_filter := t\<rparr>) else None)"

text \<open>
  How \<open>parse_args()\<close> ends: with the namespace, with a usage error (the usage text and
  an error message on standard error, exit status 2), or with the help text on standard
  output and exit status 0.
\<close>

datatype parsed = Parsed args | UsageError | HelpExit

text \<open>
  The parser acts on each item as it reaches it: help exits at once, a bad or missing
  value is an error at once. Strings it does not recognise are collected, and reported
  at the end, after the check that the required \<open>--audio\<close> was seen.
\<close>

fun consume :: "(pystr \<Rightarrow> int option) \<Rightarrow> item list \<Rightarrow> args \<Rightarrow> bool \<Rightarrow> bool \<Rightarrow> parsed" where
  "consume conv [] ns seen extras =
     (if \<not> seen then UsageError else if extras then UsageError else Parsed ns)"
| "consume conv (Help # rest) ns seen extras = HelpExit"
| "consume conv (NoValue f # rest) ns seen extras = UsageError"
| "consume conv (Unrecognized t # rest) ns seen extras = consume conv rest ns seen True"
| "consume conv (Opt f t # rest) ns seen extras =
     (case store conv f t ns of
        None \<Rightarrow> UsageError
      | Some ns' \<Rightarrow> consume conv rest ns' (seen \<or> f = Audio) extras)"

definition parse_args :: "(pystr \<Rightarrow> int option) \<Rightarrow> item list \<Rightarrow> parsed" where
  "parse_args conv argv = consume conv argv defaults False False"

section \<open>main\<close>

text \<open>
  The library is outside the program: \<open>WhisperModel(model, device=..., compute_type=...)\<close>
  returns a model or raises, and \<open>model.transcribe(audio, beam_size=..., language=...,
  vad_filter=...)\<close> returns the segments and the info or raises. The same call gives the
  same answer. The environment of a run is Python's \<open>int\<close> on strings, what the import
  of line 24 gives (the library, or an exception), and what the standard output does
  with a text that \<open>print\<close> hands it: it takes it (\<open>None\<close>), or raises because its
  encoding cannot hold the text, and then writes nothing.
\<close>

record 'm library =
  WhisperModel :: "pystr \<Rightarrow> pystr \<Rightarrow> pystr \<Rightarrow> exc + 'm"
  transcribe :: "'m \<Rightarrow> pyval \<Rightarrow> int \<Rightarrow> pyval \<Rightarrow> bool \<Rightarrow> exc + segments \<times> info"

record 'm env =
  py_int :: "pystr \<Rightarrow> int option"
  import_faster_whisper :: "exc + 'm library"
  stdout_refuses :: "pystr \<Rightarrow> exc option"

text \<open>What a run did with the library, in order, and what it left behind.\<close>

datatype lib_call =
  ImportCall
| ModelCall pystr pystr pystr
| TranscribeCall pyval int pyval bool

record result =
  status :: int
  stdout :: pystr
  stderr :: pystr
  calls :: "lib_call list"

text \<open>
  Lines 29 to 46, the second \<open>try\<close>: what was printed on the standard output, or the
  exception that the \<open>except\<close> clause catches, with the calls made up to there. The
  \<open>print\<close> of line 42 stands inside the \<open>try\<close>, so an exception of the standard output
  is caught like one of the library.
\<close>

definition try_transcribe ::
  "(pystr \<Rightarrow> exc option) \<Rightarrow> 'm library \<Rightarrow> args \<Rightarrow> bool \<Rightarrow> (exc + pystr) \<times> lib_call list" where
  "try_transcribe refuses lib a vad =
     (let c1 = ModelCall (model a) (device a) (compute_type a) in
      case WhisperModel lib (model a) (device a) (compute_type a) of
        Inl e \<Rightarrow> (Inl e, [c1])
      | Inr m \<Rightarrow>
          (let b = max 1 (beam_size a);
               l = py_or (language a) PyNone;
               c2 = TranscribeCall (audio a) b l vad in
           case transcribe lib m (audio a) b l vad of
             Inl e \<Rightarrow> (Inl e, [c1, c2])
           | Inr (segs, i) \<Rightarrow>
               (case segments_text segs of
                  Inl e \<Rightarrow> (Inl e, [c1, c2])
                | Inr txt \<Rightarrow>
                    (case refuses (json_dumps (payload txt i)) of
                       Some e \<Rightarrow> (Inl e, [c1, c2])
                     | None \<Rightarrow> (Inr (print_line (json_dumps (payload txt i))), [c1, c2])))))"

text \<open>Lines 21 to 46: \<open>main\<close> once the arguments are parsed.\<close>

definition run :: "'m env \<Rightarrow> args \<Rightarrow> result" where
  "run env a =
     (let vad = (vad_filter a = ustr ''true'') in
      case import_faster_whisper env of
        Inl e \<Rightarrow>
          \<lparr>status = 2, stdout = [],
           stderr = print_line (ustr ''faster-whisper import failed: '' @ exc_str e),
           calls = [ImportCall]\<rparr>
      | Inr lib \<Rightarrow>
          (case try_transcribe (stdout_refuses env) lib a vad of
             (Inl e, cs) \<Rightarrow>
               \<lparr>status = 1, stdout = [],
                stderr = print_line (ustr ''transcribe failed: '' @ exc_str e),
                calls = ImportCall # cs\<rparr>
           | (Inr out, cs) \<Rightarrow>
               \<lparr>status = 0, stdout = out, stderr = [], calls = ImportCall # cs\<rparr>))"

text \<open>
  The whole of \<open>main\<close>: \<open>parse_args()\<close> of line 20 comes first, and when it exits the
  process nothing else runs.
\<close>

datatype outcome = Returned result | ExitUsage | ExitHelp

definition main :: "'m env \<Rightarrow> item list \<Rightarrow> outcome" where
  "main env argv =
     (case parse_args (py_int env) argv of
        UsageError \<Rightarrow> ExitUsage
      | HelpExit \<Rightarrow> ExitHelp
      | Parsed a \<Rightarrow> Returned (run env a))"

fun exit_status :: "outcome \<Rightarrow> int" where
  "exit_status (Returned r) = status r"
| "exit_status ExitUsage = 2"
| "exit_status ExitHelp = 0"

fun library_calls :: "outcome \<Rightarrow> lib_call list" where
  "library_calls (Returned r) = calls r"
| "library_calls ExitUsage = []"
| "library_calls ExitHelp = []"

section \<open>Words of the specification\<close>

text \<open>A stream holds a single line: one line feed, at its end.\<close>

definition single_line :: "pystr \<Rightarrow> bool" where
  "single_line s \<longleftrightarrow> s \<noteq> [] \<and> last s = 10 \<and> 10 \<notin> set (butlast s)"

section \<open>An environment to run the program in\<close>

text \<open>
  Python's \<open>int\<close> on a string, as CPython 3.11 has it: white space around the number is
  skipped (the separators 28 to 31 are no white space here), one sign may stand before
  the digits, the digits are decimal digits of any script (each script's ten digits are
  consecutive code points; the list holds every script's zero, from Unicode 14), single
  underscores may stand between digits, and a number of more than 4300 digits is
  refused.
\<close>

definition digit_zeros :: "nat list" where
  "digit_zeros =
     [48, 1632, 1776, 1984, 2406, 2534, 2662, 2790, 2918, 3046, 3174, 3302, 3430, 3558,
      3664, 3792, 3872, 4160, 4240, 6112, 6160, 6470, 6608, 6784, 6800, 6992, 7088, 7232,
      7248, 42528, 43216, 43264, 43472, 43504, 43600, 44016, 65296, 66720, 68912, 69734,
      69872, 69942, 70096, 70384, 70736, 70864, 71248, 71360, 71472, 71904, 72016, 72784,
      73040, 73120, 92768, 92864, 93008, 120782, 120792, 120802, 120812, 120822, 123200,
      123632, 125264, 130032]"

definition digit_value :: "nat \<Rightarrow> nat option" where
  "digit_value c =
     (case filter (\<lambda>z. z \<le> c \<and> c < z + 10) digit_zeros of
        [] \<Rightarrow> None
      | z # zs \<Rightarrow> Some (c - z))"

definition int_space :: "nat \<Rightarrow> bool" where
  "int_space c \<longleftrightarrow> isspace c \<and> \<not> (28 \<le> c \<and> c \<le> 31)"

text \<open>
  The digits after the first: the value so far and the number of digits read. An
  underscore must be followed by a digit.
\<close>

fun digits_from :: "pystr \<Rightarrow> nat \<Rightarrow> nat \<Rightarrow> (nat \<times> nat) option" where
  "digits_from [] acc n = Some (acc, n)"
| "digits_from [c] acc n =
     (case digit_value c of None \<Rightarrow> None | Some v \<Rightarrow> Some (10 * acc + v, Suc n))"
| "digits_from (c # d # ds) acc n =
     (if c = 95
      then (case digit_value d of
              None \<Rightarrow> None
            | Some v \<Rightarrow> digits_from ds (10 * acc + v) (Suc n))
      else (case digit_value c of
              None \<Rightarrow> None
            | Some v \<Rightarrow> digits_from (d # ds) (10 * acc + v) (Suc n)))"

definition unsigned_int :: "pystr \<Rightarrow> nat option" where
  "unsigned_int ds =
     (case ds of
        [] \<Rightarrow> None
      | d # rest \<Rightarrow>
          (case digit_value d of
             None \<Rightarrow> None
           | Some v \<Rightarrow>
               (case digits_from rest v 1 of
                  None \<Rightarrow> None
                | Some (n, k) \<Rightarrow> if 4300 < k then None else Some n)))"

definition python_int :: "pystr \<Rightarrow> int option" where
  "python_int t =
     (case rev (dropWhile int_space (rev (dropWhile int_space t))) of
        [] \<Rightarrow> None
      | c # cs \<Rightarrow>
          if c = 45 then map_option (\<lambda>n. - int n) (unsigned_int cs)
          else if c = 43 then map_option int (unsigned_int cs)
          else map_option int (unsigned_int (c # cs)))"

text \<open>
  A standard output encoded in UTF-8 with strict error handling: it refuses a text
  that holds a surrogate code point, with the message of \<open>UnicodeEncodeError\<close>, which
  names the first run of surrogates.
\<close>

definition surrogate :: "nat \<Rightarrow> bool" where
  "surrogate c \<longleftrightarrow> 55296 \<le> c \<and> c \<le> 57343"

fun decimal :: "nat \<Rightarrow> pystr" where
  "decimal n = (if n < 10 then [48 + n] else decimal (n div 10) @ [48 + n mod 10])"

declare decimal.simps [simp del]

definition hex4 :: "nat \<Rightarrow> pystr" where
  "hex4 c = [hex_digit (c div 4096 mod 16), hex_digit (c div 256 mod 16),
             hex_digit (c div 16 mod 16), hex_digit (c mod 16)]"

definition utf8_strict :: "pystr \<Rightarrow> exc option" where
  "utf8_strict s =
     (let i = length (takeWhile (\<lambda>c. \<not> surrogate c) s);
          bad = takeWhile surrogate (dropWhile (\<lambda>c. \<not> surrogate c) s);
          codec = [39] @ ustr ''utf-8'' @ [39] @ ustr '' codec can'' @ [39] @ ustr ''t encode ''
      in case bad of
           [] \<Rightarrow> None
         | [c] \<Rightarrow>
             Some (Exc (codec @ ustr ''character '' @ [39, 92, 117] @ hex4 c @ [39] @
                        ustr '' in position '' @ decimal i @
                        ustr '': surrogates not allowed''))
         | c # d # ds \<Rightarrow>
             Some (Exc (codec @ ustr ''characters in position '' @ decimal i @ [45] @
                        decimal (i + length bad - 1) @
                        ustr '': surrogates not allowed'')))"

text \<open>
  A standard output encoded in ASCII with strict error handling (the C locale, or
  \<open>PYTHONIOENCODING=ascii\<close>): it refuses a text that holds a code point above 127, with
  the message of \<open>UnicodeEncodeError\<close>, which names the first run of such code points,
  a single one in the notation of \<open>repr\<close>.
\<close>

definition char_escape :: "nat \<Rightarrow> pystr" where
  "char_escape c =
     (if c < 256 then [92, 120, hex_digit (c div 16 mod 16), hex_digit (c mod 16)]
      else if c < 65536 then [92, 117] @ hex4 c
      else [92, 85] @ hex4 (c div 65536) @ hex4 (c mod 65536))"

definition ascii_strict :: "pystr \<Rightarrow> exc option" where
  "ascii_strict s =
     (let i = length (takeWhile (\<lambda>c. c < 128) s);
          bad = takeWhile (\<lambda>c. 128 \<le> c) (dropWhile (\<lambda>c. c < 128) s);
          codec = [39] @ ustr ''ascii'' @ [39] @ ustr '' codec can'' @ [39] @ ustr ''t encode ''
      in case bad of
           [] \<Rightarrow> None
         | [c] \<Rightarrow>
             Some (Exc (codec @ ustr ''character '' @ [39] @ char_escape c @ [39] @
                        ustr '' in position '' @ decimal i @
                        ustr '': ordinal not in range(128)''))
         | c # d # ds \<Rightarrow>
             Some (Exc (codec @ ustr ''characters in position '' @ decimal i @ [45] @
                        decimal (i + length bad - 1) @
                        ustr '': ordinal not in range(128)'')))"

text \<open>
  An environment whose library builds a model on every call and answers \<open>transcribe\<close>
  by the given function of the beam width; one whose segments raise the given
  exception after the first; one whose import fails with the given exception; one whose
  \<open>WhisperModel\<close> raises the given exception; and an environment with its standard
  output turned to ASCII.
\<close>

definition answering :: "(int \<Rightarrow> exc + segments \<times> info) \<Rightarrow> unit env" where
  "answering f =
     \<lparr>py_int = python_int,
      import_faster_whisper =
        Inr \<lparr>WhisperModel = (\<lambda>m d c. Inr ()), transcribe = (\<lambda>m a b l v. f b)\<rparr>,
      stdout_refuses = utf8_strict\<rparr>"


definition raising_env :: "exc \<Rightarrow> unit env" where
  "raising_env e =
     answering (\<lambda>w. Inr (SegYield \<lparr>seg_text = PyStr (ustr ''ok'')\<rparr> (SegRaise e),
                         \<lparr>info_language = None\<rparr>))"

definition missing_env :: "exc \<Rightarrow> unit env" where
  "missing_env e =
     \<lparr>py_int = python_int, import_faster_whisper = Inl e, stdout_refuses = utf8_strict\<rparr>"

definition modelless_env :: "exc \<Rightarrow> unit env" where
  "modelless_env e =
     \<lparr>py_int = python_int,
      import_faster_whisper =
        Inr \<lparr>WhisperModel = (\<lambda>m d c. Inl e),
             transcribe = (\<lambda>m a b l v. Inr (SegEnd, \<lparr>info_language = None\<rparr>))\<rparr>,
      stdout_refuses = utf8_strict\<rparr>"

definition ascii_stdout :: "'m env \<Rightarrow> 'm env" where
  "ascii_stdout env = env\<lparr>stdout_refuses := ascii_strict\<rparr>"

text \<open>
  Answers to \<open>transcribe\<close>: one that refuses a beam width below 1, one that refuses
  the width 1 alone, one that takes every width, and one whose text is Chinese.
\<close>

definition positive_only :: "int \<Rightarrow> exc + segments \<times> info" where
  "positive_only w =
     (if w < 1 then Inl (Exc (ustr ''beam_size must be positive''))
      else Inr (yields [PyStr (ustr ''ok'')], \<lparr>info_language = Some (PyStr (ustr ''en''))\<rparr>))"

definition refusing_one :: "int \<Rightarrow> exc + segments \<times> info" where
  "refusing_one w =
     (if w = 1 then Inl (Exc (ustr ''width 1 refused''))
      else Inr (yields [PyStr (ustr ''ok'')], \<lparr>info_language = Some (PyStr (ustr ''en''))\<rparr>))"

definition every_width :: "int \<Rightarrow> exc + segments \<times> info" where
  "every_width w =
     Inr (yields [PyStr (ustr ''ok'')], \<lparr>info_language = Some (PyStr (ustr ''en''))\<rparr>)"

definition chinese_answer :: "int \<Rightarrow> exc + segments \<times> info" where
  "chinese_answer w =
     Inr (yields [PyStr [20320, 22909]], \<lparr>info_language = Some (PyStr (ustr ''zh''))\<rparr>)"

section \<open>Theorems\<close>

subsection \<open>The text of the segments\<close>

lemma fragments_yields:
  "fragments (yields ts) =
     Inr (map (\<lambda>t. strip (case t of PyNone \<Rightarrow> [] | PyStr s \<Rightarrow> s)) ts)"
proof (induction ts)
  case Nil
  show ?case by simp
next
  case (Cons t ts)
  show ?case
  proof (cases t)
    case PyNone
    with Cons show ?thesis by (simp add: py_or_def strip_def lstrip_def rstrip_def)
  next
    case (PyStr s)
    with Cons show ?thesis
      by (cases s) (simp_all add: py_or_def strip_def lstrip_def rstrip_def)
  qed
qed

text \<open>
  Claim C1, as stated, fails: for segments whose texts are \<open>"  hello "\<close>, \<open>""\<close> and
  \<open>" world"\<close> the text is not \<open>"hello world"\<close>.
\<close>

theorem hello_world_text_counterexample:
  "segments_text (yields [PyStr (ustr ''  hello ''), PyStr [], PyStr (ustr '' world'')])
     \<noteq> Inr (ustr ''hello world'')"
  by code_simp

text \<open>
  Claim C1, amended: for segments whose texts are \<open>"  hello "\<close>, \<open>""\<close> and \<open>" world"\<close>
  the text is \<open>"hello  world"\<close>, with two spaces. Each segment's text is trimmed, a
  missing or empty text gives an empty fragment, all the fragments, the empty ones too,
  are joined with a single space, and the whole is trimmed.
\<close>

theorem hello_world_text:
  "segments_text (yields [PyStr (ustr ''  hello ''), PyStr [], PyStr (ustr '' world'')])
     = Inr (ustr ''hello  world'')
   \<and> segments_text (yields ts)
     = Inr (strip (join (ustr '' '')
         (map (\<lambda>t. strip (case t of PyNone \<Rightarrow> [] | PyStr s \<Rightarrow> s)) ts)))"
proof
  show "segments_text (yields [PyStr (ustr ''  hello ''), PyStr [], PyStr (ustr '' world'')])
     = Inr (ustr ''hello  world'')"
    by code_simp
  show "segments_text (yields ts)
     = Inr (strip (join (ustr '' '')
         (map (\<lambda>t. strip (case t of PyNone \<Rightarrow> [] | PyStr s \<Rightarrow> s)) ts)))"
    by (simp add: segments_text_def fragments_yields)
qed

subsection \<open>Facts about the parser\<close>



lemma store_beam_other:
  "f \<noteq> BeamSize \<Longrightarrow>
   store conv f t (ns\<lparr>beam_size := b\<rparr>) = map_option (\<lambda>n. n\<lparr>beam_size := b\<rparr>) (store conv f t ns)"
  by (cases f) simp_all

lemma store_beam_same:
  "store conv BeamSize t (ns\<lparr>beam_size := b\<rparr>) = store conv BeamSize t ns"
  by (simp split: option.splits)

lemma consume_beam:
  "consume conv items (ns\<lparr>beam_size := b\<rparr>) s e = consume conv items (ns\<lparr>beam_size := c\<rparr>) s e \<or>
   (\<exists>a. consume conv items (ns\<lparr>beam_size := b\<rparr>) s e = Parsed (a\<lparr>beam_size := b\<rparr>) \<and>
        consume conv items (ns\<lparr>beam_size := c\<rparr>) s e = Parsed (a\<lparr>beam_size := c\<rparr>))"
proof (induction items arbitrary: ns s e)
  case Nil
  show ?case by auto
next
  case (Cons x items)
  show ?case
  proof (cases x)
    case (Opt g u)
    show ?thesis
    proof (cases "g = BeamSize")
      case True
      with Opt show ?thesis by (simp add: store_beam_same del: store.simps)
    next
      case False
      show ?thesis
      proof (cases "store conv g u ns")
        case None
        with Opt False show ?thesis by (simp add: store_beam_other del: store.simps)
      next
        case (Some ns')
        with Opt False Cons.IH [of ns' "s \<or> g = Audio" e] show ?thesis
          by (simp add: store_beam_other del: store.simps)
      qed
    qed
  next
    case Help
    then show ?thesis by simp
  next
    case (NoValue g)
    then show ?thesis by simp
  next
    case (Unrecognized u)
    with Cons.IH [of ns s True] show ?thesis by simp
  qed
qed

subsection \<open>Facts about the segments and the JSON line\<close>

lemma py_strip_or:
  "py_strip (py_or v (PyStr [])) = Inr (strip (case v of PyNone \<Rightarrow> [] | PyStr s \<Rightarrow> s))"
proof (cases v)
  case PyNone
  then show ?thesis by (simp add: py_or_def strip_def lstrip_def rstrip_def)
next
  case (PyStr s)
  then show ?thesis by (cases s) (simp_all add: py_or_def strip_def lstrip_def rstrip_def)
qed

lemma fragments_raised:
  "fragments segs = (case raised segs of Some e \<Rightarrow> Inl e | None \<Rightarrow> fragments segs)
   \<and> (raised segs = None \<longrightarrow> (\<exists>fs. fragments segs = Inr fs))"
  by (induction segs) (auto simp: py_strip_or split: sum.splits option.splits)

lemma segments_text_raised:
  "raised segs = Some e \<Longrightarrow> segments_text segs = Inl e"
  using fragments_raised [of segs] by (simp add: segments_text_def)

lemma segments_text_ended:
  "raised segs = None \<Longrightarrow> \<exists>t. segments_text segs = Inr t"
  using fragments_raised [of segs] by (auto simp: segments_text_def)

lemma single_line_print: "single_line (print_line s) \<longleftrightarrow> 10 \<notin> set s"
  by (simp add: single_line_def print_line_def)

lemma hex_digit_range: "48 \<le> hex_digit d"
  by (simp add: hex_digit_def)

lemma json_escape_no_lf: "10 \<notin> set (json_escape c)"
  using hex_digit_range [of "c div 16"] hex_digit_range [of "c mod 16"]
  by (auto simp: json_escape_def)

lemma json_str_no_lf: "10 \<notin> set (json_str s)"
  by (induction s) (auto simp: json_str_def json_escape_no_lf)

lemma json_dumps_payload:
  "json_dumps [(k1, PyStr t), (k2, PyStr l)] =
     ustr ''{'' @ json_str k1 @ ustr '': '' @ json_str t @ ustr '', '' @
     json_str k2 @ ustr '': '' @ json_str l @ ustr ''}''"
  by (simp add: json_dumps_def json_item_def)

lemma json_dumps_no_lf: "10 \<notin> set (json_dumps [(k1, PyStr t), (k2, PyStr l)])"
  by (simp add: json_dumps_payload json_str_no_lf) (simp add: ustr_def)

lemma payload_language_str: "\<exists>l. payload_language i = PyStr l"
  by (cases "payload_language i")
     (auto simp: payload_language_def getattr_language_def py_or_def split: option.splits if_splits)

lemma json_escape_high: "filter (\<lambda>c. 128 \<le> c) (json_escape c) = (if 128 \<le> c then [c] else [])"
proof -
  have "hex_digit (c div 16) < 128" if "c < 32"
    using that by (simp add: hex_digit_def)
  moreover have "hex_digit (c mod 16) < 128"
  proof -
    have "c mod 16 < 16" by simp
    then show ?thesis unfolding hex_digit_def by (simp del: mod_less_divisor)
  qed
  ultimately show ?thesis by (auto simp: json_escape_def)
qed

lemma json_str_high: "filter (\<lambda>c. 128 \<le> c) (json_str s) = filter (\<lambda>c. 128 \<le> c) s"
proof -
  have "filter (\<lambda>c. 128 \<le> c) (concat (map json_escape s)) = filter (\<lambda>c. 128 \<le> c) s"
    by (induction s) (simp_all add: json_escape_high)
  then show ?thesis by (simp add: json_str_def)
qed

lemma ustr_ascii: "filter (\<lambda>c. 128 \<le> c) (ustr ''{'') = []"
  by (simp add: ustr_def)

subsection \<open>Facts about main\<close>

lemma main_parsed:
  "parse_args (py_int env) argv = Parsed a \<Longrightarrow> main env argv = Returned (run env a)"
  by (simp add: main_def)

lemma run_import_failed:
  "import_faster_whisper env = Inl e \<Longrightarrow>
   run env a = \<lparr>status = 2, stdout = [],
                stderr = ustr ''faster-whisper import failed: '' @ exc_str e @ [10],
                calls = [ImportCall]\<rparr>"
  by (simp add: run_def print_line_def)

lemma run_failed:
  "import_faster_whisper env = Inr lib \<Longrightarrow>
   try_transcribe (stdout_refuses env) lib a (vad_filter a = ustr ''true'') = (Inl e, cs) \<Longrightarrow>
   run env a = \<lparr>status = 1, stdout = [],
                stderr = ustr ''transcribe failed: '' @ exc_str e @ [10],
                calls = ImportCall # cs\<rparr>"
  by (simp add: run_def print_line_def)

lemma run_succeeded:
  "import_faster_whisper env = Inr lib \<Longrightarrow>
   try_transcribe (stdout_refuses env) lib a (vad_filter a = ustr ''true'') = (Inr out, cs) \<Longrightarrow>
   run env a = \<lparr>status = 0, stdout = out, stderr = [], calls = ImportCall # cs\<rparr>"
  by (simp add: run_def)

lemma try_model_raises:
  "WhisperModel lib (model a) (device a) (compute_type a) = Inl e \<Longrightarrow>
   try_transcribe r lib a v = (Inl e, [ModelCall (model a) (device a) (compute_type a)])"
  by (simp add: try_transcribe_def)

lemma try_transcribe_raises:
  "WhisperModel lib (model a) (device a) (compute_type a) = Inr m \<Longrightarrow>
   transcribe lib m (audio a) (max 1 (beam_size a)) (py_or (language a) PyNone) v = Inl e \<Longrightarrow>
   try_transcribe r lib a v =
     (Inl e, [ModelCall (model a) (device a) (compute_type a),
              TranscribeCall (audio a) (max 1 (beam_size a)) (py_or (language a) PyNone) v])"
  by (simp add: try_transcribe_def Let_def)

lemma try_segments_raise:
  "WhisperModel lib (model a) (device a) (compute_type a) = Inr m \<Longrightarrow>
   transcribe lib m (audio a) (max 1 (beam_size a)) (py_or (language a) PyNone) v
     = Inr (segs, i) \<Longrightarrow>
   raised segs = Some e \<Longrightarrow>
   try_transcribe r lib a v =
     (Inl e, [ModelCall (model a) (device a) (compute_type a),
              TranscribeCall (audio a) (max 1 (beam_size a)) (py_or (language a) PyNone) v])"
  by (simp add: try_transcribe_def Let_def segments_text_raised)

lemma try_print_raises:
  "WhisperModel lib (model a) (device a) (compute_type a) = Inr m \<Longrightarrow>
   transcribe lib m (audio a) (max 1 (beam_size a)) (py_or (language a) PyNone) v
     = Inr (segs, i) \<Longrightarrow>
   segments_text segs = Inr t \<Longrightarrow>
   r (json_dumps (payload t i)) = Some e \<Longrightarrow>
   try_transcribe r lib a v =
     (Inl e, [ModelCall (model a) (device a) (compute_type a),
              TranscribeCall (audio a) (max 1 (beam_size a)) (py_or (language a) PyNone) v])"
  by (simp add: try_transcribe_def Let_def)

lemma try_succeeds:
  "WhisperModel lib (model a) (device a) (compute_type a) = Inr m \<Longrightarrow>
   transcribe lib m (audio a) (max 1 (beam_size a)) (py_or (language a) PyNone) v
     = Inr (segs, i) \<Longrightarrow>
   segments_text segs = Inr t \<Longrightarrow>
   r (json_dumps (payload t i)) = None \<Longrightarrow>
   try_transcribe r lib a v =
     (Inr (json_dumps (payload t i) @ [10]),
      [ModelCall (model a) (device a) (compute_type a),
       TranscribeCall (audio a) (max 1 (beam_size a)) (py_or (language a) PyNone) v])"
  by (simp add: try_transcribe_def Let_def print_line_def)

lemma try_transcribe_beam:
  "b < 1 \<Longrightarrow>
   try_transcribe r lib (a\<lparr>beam_size := b\<rparr>) v = try_transcribe r lib (a\<lparr>beam_size := 1\<rparr>) v"
  by (simp add: try_transcribe_def Let_def split: sum.splits prod.splits)

lemma run_beam:
  "b < 1 \<Longrightarrow> run env (a\<lparr>beam_size := b\<rparr>) = run env (a\<lparr>beam_size := 1\<rparr>)"
  by (simp add: run_def try_transcribe_beam split: sum.splits)

lemma calls_beam:
  "TranscribeCall au w l v \<in> set (calls (run env a)) \<Longrightarrow> w = max 1 (beam_size a) \<and> 1 \<le> w"
  by (auto simp: run_def try_transcribe_def Let_def split: sum.splits prod.splits option.splits)

lemma try_transcribe_cong:
  assumes "WhisperModel lib' (model a) (device a) (compute_type a)
             = WhisperModel lib (model a) (device a) (compute_type a)"
    and "\<And>m. transcribe lib' m (audio a) (max 1 (beam_size a)) (py_or (language a) PyNone) v
             = transcribe lib m (audio a) (max 1 (beam_size a)) (py_or (language a) PyNone) v"
  shows "try_transcribe r lib' a v = try_transcribe r lib a v"
proof (cases "WhisperModel lib (model a) (device a) (compute_type a)")
  case (Inl e)
  with assms(1) show ?thesis by (simp add: try_transcribe_def)
next
  case (Inr m)
  with assms(1) assms(2) [of m] show ?thesis by (simp add: try_transcribe_def Let_def)
qed

lemma run_cong:
  assumes "import_faster_whisper env = Inr lib" and "import_faster_whisper env' = Inr lib'"
    and "stdout_refuses env' = stdout_refuses env"
    and "WhisperModel lib' (model a) (device a) (compute_type a)
             = WhisperModel lib (model a) (device a) (compute_type a)"
    and "\<And>m. transcribe lib' m (audio a) (max 1 (beam_size a)) (py_or (language a) PyNone)
               (vad_filter a = ustr ''true'')
             = transcribe lib m (audio a) (max 1 (beam_size a)) (py_or (language a) PyNone)
               (vad_filter a = ustr ''true'')"
  shows "run env' a = run env a"
  using assms(1,2,3) try_transcribe_cong [OF assms(4), of "vad_filter a = ustr ''true''" "stdout_refuses env"] assms(5)
  by (simp add: run_def)

lemma main_beam_tokens:
  assumes "conv t = Some b" and "b < 1" and "conv t1 = Some 1"
  shows "(case consume conv (pre @ Opt BeamSize t # post) ns s e of
            Parsed a \<Rightarrow> Returned (run env a) | UsageError \<Rightarrow> ExitUsage | HelpExit \<Rightarrow> ExitHelp) =
         (case consume conv (pre @ Opt BeamSize t1 # post) ns s e of
            Parsed a \<Rightarrow> Returned (run env a) | UsageError \<Rightarrow> ExitUsage | HelpExit \<Rightarrow> ExitHelp)"
proof (induction pre arbitrary: ns s e)
  case Nil
  from consume_beam [where conv = conv and items = post and ns = ns and b = b and c = 1 and s = s and e = e]
  show ?case
  proof
    assume "consume conv post (ns\<lparr>beam_size := b\<rparr>) s e = consume conv post (ns\<lparr>beam_size := 1\<rparr>) s e"
    with assms show ?thesis by simp
  next
    assume "\<exists>a. consume conv post (ns\<lparr>beam_size := b\<rparr>) s e = Parsed (a\<lparr>beam_size := b\<rparr>) \<and>
                consume conv post (ns\<lparr>beam_size := 1\<rparr>) s e = Parsed (a\<lparr>beam_size := 1\<rparr>)"
    then obtain a where
      "consume conv post (ns\<lparr>beam_size := b\<rparr>) s e = Parsed (a\<lparr>beam_size := b\<rparr>)"
      "consume conv post (ns\<lparr>beam_size := 1\<rparr>) s e = Parsed (a\<lparr>beam_size := 1\<rparr>)"
      by blast
    with assms show ?thesis by (simp add: run_beam)
  qed
next
  case (Cons x pre)
  show ?case
  proof (cases x)
    case (Opt g u)
    show ?thesis
    proof (cases "store conv g u ns")
      case None
      with Opt show ?thesis by simp
    next
      case (Some ns')
      with Opt Cons.IH [of ns' "s \<or> g = Audio" e] show ?thesis by simp
    qed
  next
    case Help
    then show ?thesis by simp
  next
    case (NoValue g)
    then show ?thesis by simp
  next
    case (Unrecognized u)
    with Cons.IH [of ns s True] show ?thesis by simp
  qed
qed

subsection \<open>The language of the payload\<close>

text \<open>
  Claim C2: the language field of the payload is the \<open>language\<close> attribute of the info
  object when that attribute is there and truthy, and the empty string when it is missing
  or falsy; it is never \<open>None\<close>, and the key is never missing from the payload.
\<close>

theorem payload_language_normalised:
  "(info_language i = Some v \<and> truthy v \<longrightarrow> payload_language i = v) \<and>
   (info_language i = None \<or> (info_language i = Some v \<and> \<not> truthy v)
      \<longrightarrow> payload_language i = PyStr []) \<and>
   payload_language i \<noteq> PyNone \<and>
   map_of (payload txt i) (ustr ''language'') = Some (payload_language i)"
  by (auto simp: payload_language_def getattr_language_def py_or_def payload_def ustr_def
           split: option.splits)

theorem payload_language_normalised_witness:
  "truthy (PyStr (ustr ''en'')) \<and>
   payload_language \<lparr>info_language = Some (PyStr (ustr ''en''))\<rparr> = PyStr (ustr ''en'') \<and>
   payload_language \<lparr>info_language = None\<rparr> = PyStr [] \<and>
   \<not> truthy PyNone \<and> payload_language \<lparr>info_language = Some PyNone\<rparr> = PyStr [] \<and>
   \<not> truthy (PyStr []) \<and> payload_language \<lparr>info_language = Some (PyStr [])\<rparr> = PyStr []"
  using payload_language_normalised
          [of "\<lparr>info_language = Some (PyStr (ustr ''en''))\<rparr>" "PyStr (ustr ''en'')"]
        payload_language_normalised [of "\<lparr>info_language = None\<rparr>" PyNone]
        payload_language_normalised [of "\<lparr>info_language = Some PyNone\<rparr>" PyNone]
        payload_language_normalised [of "\<lparr>info_language = Some (PyStr [])\<rparr>" "PyStr []"]
  by (simp add: ustr_def)

subsection \<open>The beam size\<close>

lemma answering_fields:
  "py_int (answering f) = python_int"
  "import_faster_whisper (answering f)
     = Inr \<lparr>WhisperModel = (\<lambda>m d c. Inr ()), transcribe = (\<lambda>m a b l v. f b)\<rparr>"
  "stdout_refuses (answering f) = utf8_strict"
  by (simp_all add: answering_def)

lemma digit_value_ascii:
  "48 \<le> c \<Longrightarrow> c < 58 \<Longrightarrow> digit_value c = Some (c - 48)"
  by (simp add: digit_value_def digit_zeros_def)

lemma python_int_tokens:
  "python_int (ustr ''-5'') = Some (-5)"
  "python_int (ustr ''1'') = Some 1"
  by (simp_all add: python_int_def unsigned_int_def digit_value_ascii int_space_def isspace_def
                    ustr_def)

lemma utf8_strict_clean:
  "\<forall>c \<in> set s. \<not> surrogate c \<Longrightarrow> utf8_strict s = None"
  by (simp add: utf8_strict_def Let_def dropWhile_eq_Nil_conv [THEN iffD2])

lemma ok_line:
  "segments_text (yields [PyStr (ustr ''ok'')]) = Inr (ustr ''ok'')"
  "json_dumps (payload (ustr ''ok'') \<lparr>info_language = Some (PyStr (ustr ''en''))\<rparr>)
     = ustr ''{\"text\": \"ok\", \"language\": \"en\"}''"
  by code_simp+

lemma ok_line_accepted:
  "utf8_strict (ustr ''{\"text\": \"ok\", \"language\": \"en\"}'') = None"
  by (rule utf8_strict_clean) (simp add: ustr_def surrogate_def)

text \<open>
  Claim C3: a beam size below 1, zero or negative, gives the run that the beam size 1
  gives, from the parsed arguments and from the command line alike (whatever else the
  command line holds). The library is asked at the beam width that is the maximum of 1 and
  the given value, and at no other: what it answers there, an exception or the segments
  and the info, is what the run reports, and two libraries that answer alike at that
  width give the same run, whatever they answer at other widths. The width in the call
  to \<open>transcribe\<close> is that maximum, so it is at least 1.
\<close>

theorem beam_size_clamped:
  "(b < 1 \<longrightarrow> run env (a\<lparr>beam_size := b\<rparr>) = run env (a\<lparr>beam_size := 1\<rparr>)) \<and>
   (TranscribeCall au w l v \<in> set (calls (run env a)) \<longrightarrow> w = max 1 (beam_size a) \<and> 1 \<le> w) \<and>
   (b < 1 \<and> py_int env t = Some b \<and> py_int env t1 = Some 1 \<longrightarrow>
      main env (pre @ Opt BeamSize t # post) = main env (pre @ Opt BeamSize t1 # post)) \<and>
   (import_faster_whisper env = Inr lib \<and>
    WhisperModel lib (model a) (device a) (compute_type a) = Inr m \<and>
    transcribe lib m (audio a) (max 1 (beam_size a)) (py_or (language a) PyNone)
      (vad_filter a = ustr ''true'') = Inl e \<longrightarrow>
      run env a = \<lparr>status = 1, stdout = [],
                   stderr = ustr ''transcribe failed: '' @ exc_str e @ [10],
                   calls = [ImportCall, ModelCall (model a) (device a) (compute_type a),
                            TranscribeCall (audio a) (max 1 (beam_size a))
                              (py_or (language a) PyNone) (vad_filter a = ustr ''true'')]\<rparr>) \<and>
   (import_faster_whisper env = Inr lib \<and>
    WhisperModel lib (model a) (device a) (compute_type a) = Inr m \<and>
    transcribe lib m (audio a) (max 1 (beam_size a)) (py_or (language a) PyNone)
      (vad_filter a = ustr ''true'') = Inr (segs, i) \<and>
    segments_text segs = Inr tx \<and>
    stdout_refuses env (json_dumps (payload tx i)) = None \<longrightarrow>
      run env a = \<lparr>status = 0, stdout = json_dumps (payload tx i) @ [10], stderr = [],
                   calls = [ImportCall, ModelCall (model a) (device a) (compute_type a),
                            TranscribeCall (audio a) (max 1 (beam_size a))
                              (py_or (language a) PyNone) (vad_filter a = ustr ''true'')]\<rparr>) \<and>
   (import_faster_whisper env = Inr lib \<and> import_faster_whisper env' = Inr lib' \<and>
    stdout_refuses env' = stdout_refuses env \<and>
    WhisperModel lib' (model a) (device a) (compute_type a)
      = WhisperModel lib (model a) (device a) (compute_type a) \<and>
    (\<forall>m. transcribe lib' m (audio a) (max 1 (beam_size a)) (py_or (language a) PyNone)
            (vad_filter a = ustr ''true'')
          = transcribe lib m (audio a) (max 1 (beam_size a)) (py_or (language a) PyNone)
            (vad_filter a = ustr ''true'')) \<longrightarrow>
      run env' a = run env a)"
proof (intro conjI impI)
  assume "b < 1"
  then show "run env (a\<lparr>beam_size := b\<rparr>) = run env (a\<lparr>beam_size := 1\<rparr>)"
    by (rule run_beam)
next
  assume "TranscribeCall au w l v \<in> set (calls (run env a))"
  then show "w = max 1 (beam_size a)" and "1 \<le> w"
    using calls_beam by blast+
next
  assume "b < 1 \<and> py_int env t = Some b \<and> py_int env t1 = Some 1"
  then show "main env (pre @ Opt BeamSize t # post) = main env (pre @ Opt BeamSize t1 # post)"
    using main_beam_tokens [where conv = "py_int env" and t = t and b = b and ?t1.0 = t1 and pre = pre
            and post = post and ns = defaults and s = False and e = False and env = env]
    by (simp add: main_def parse_args_def)
next
  assume h: "import_faster_whisper env = Inr lib \<and>
    WhisperModel lib (model a) (device a) (compute_type a) = Inr m \<and>
    transcribe lib m (audio a) (max 1 (beam_size a)) (py_or (language a) PyNone)
      (vad_filter a = ustr ''true'') = Inl e"
  then have "try_transcribe (stdout_refuses env) lib a (vad_filter a = ustr ''true'') =
     (Inl e, [ModelCall (model a) (device a) (compute_type a),
              TranscribeCall (audio a) (max 1 (beam_size a)) (py_or (language a) PyNone)
                (vad_filter a = ustr ''true'')])"
    by (simp add: try_transcribe_raises)
  with h show "run env a = \<lparr>status = 1, stdout = [],
                   stderr = ustr ''transcribe failed: '' @ exc_str e @ [10],
                   calls = [ImportCall, ModelCall (model a) (device a) (compute_type a),
                            TranscribeCall (audio a) (max 1 (beam_size a))
                              (py_or (language a) PyNone) (vad_filter a = ustr ''true'')]\<rparr>"
    by (simp add: run_failed)
next
  assume h: "import_faster_whisper env = Inr lib \<and>
    WhisperModel lib (model a) (device a) (compute_type a) = Inr m \<and>
    transcribe lib m (audio a) (max 1 (beam_size a)) (py_or (language a) PyNone)
      (vad_filter a = ustr ''true'') = Inr (segs, i) \<and>
    segments_text segs = Inr tx \<and>
    stdout_refuses env (json_dumps (payload tx i)) = None"
  then have "try_transcribe (stdout_refuses env) lib a (vad_filter a = ustr ''true'') =
     (Inr (json_dumps (payload tx i) @ [10]),
      [ModelCall (model a) (device a) (compute_type a),
       TranscribeCall (audio a) (max 1 (beam_size a)) (py_or (language a) PyNone)
         (vad_filter a = ustr ''true'')])"
    by (simp add: try_succeeds)
  with h show "run env a = \<lparr>status = 0, stdout = json_dumps (payload tx i) @ [10], stderr = [],
                   calls = [ImportCall, ModelCall (model a) (device a) (compute_type a),
                            TranscribeCall (audio a) (max 1 (beam_size a))
                              (py_or (language a) PyNone) (vad_filter a = ustr ''true'')]\<rparr>"
    by (simp add: run_succeeded)
next
  assume h: "import_faster_whisper env = Inr lib \<and> import_faster_whisper env' = Inr lib' \<and>
    stdout_refuses env' = stdout_refuses env \<and>
    WhisperModel lib' (model a) (device a) (compute_type a)
      = WhisperModel lib (model a) (device a) (compute_type a) \<and>
    (\<forall>m. transcribe lib' m (audio a) (max 1 (beam_size a)) (py_or (language a) PyNone)
            (vad_filter a = ustr ''true'')
          = transcribe lib m (audio a) (max 1 (beam_size a)) (py_or (language a) PyNone)
            (vad_filter a = ustr ''true''))"
  show "run env' a = run env a"
  proof (rule run_cong)
    from h show "import_faster_whisper env = Inr lib" by simp
    from h show "import_faster_whisper env' = Inr lib'" by simp
    from h show "stdout_refuses env' = stdout_refuses env" by simp
    from h show "WhisperModel lib' (model a) (device a) (compute_type a)
      = WhisperModel lib (model a) (device a) (compute_type a)" by simp
    fix m
    from h show "transcribe lib' m (audio a) (max 1 (beam_size a)) (py_or (language a) PyNone)
            (vad_filter a = ustr ''true'')
          = transcribe lib m (audio a) (max 1 (beam_size a)) (py_or (language a) PyNone)
            (vad_filter a = ustr ''true'')" by simp
  qed
qed

theorem beam_size_clamped_witness:
  "(-5::int) < 1 \<and> python_int (ustr ''-5'') = Some (-5) \<and> python_int (ustr ''1'') = Some 1 \<and>
   positive_only (-5) \<noteq> positive_only 1 \<and>
   run (answering positive_only) (defaults\<lparr>audio := PyStr (ustr ''a.wav''), beam_size := -5\<rparr>)
     = run (answering positive_only) (defaults\<lparr>audio := PyStr (ustr ''a.wav''), beam_size := 1\<rparr>) \<and>
   run (answering positive_only) (defaults\<lparr>audio := PyStr (ustr ''a.wav''), beam_size := -5\<rparr>)
     = \<lparr>status = 0, stdout = ustr ''{\"text\": \"ok\", \"language\": \"en\"}'' @ [10], stderr = [],
        calls = [ImportCall, ModelCall (ustr ''small'') (ustr ''auto'') (ustr ''int8''),
                 TranscribeCall (PyStr (ustr ''a.wav'')) 1 PyNone True]\<rparr> \<and>
   main (answering positive_only) ([Opt Audio (ustr ''a.wav'')] @ Opt BeamSize (ustr ''-5'') # [])
     = main (answering positive_only) ([Opt Audio (ustr ''a.wav'')] @ Opt BeamSize (ustr ''1'') # []) \<and>
   run (answering refusing_one) (defaults\<lparr>audio := PyStr (ustr ''a.wav''), beam_size := 0\<rparr>)
     = \<lparr>status = 1, stdout = [], stderr = ustr ''transcribe failed: width 1 refused'' @ [10],
        calls = [ImportCall, ModelCall (ustr ''small'') (ustr ''auto'') (ustr ''int8''),
                 TranscribeCall (PyStr (ustr ''a.wav'')) 1 PyNone True]\<rparr> \<and>
   run (answering every_width) (defaults\<lparr>audio := PyStr (ustr ''a.wav''), beam_size := -5\<rparr>)
     = run (answering positive_only) (defaults\<lparr>audio := PyStr (ustr ''a.wav''), beam_size := -5\<rparr>)"
proof -
  let ?lib = "\<lambda>f. \<lparr>WhisperModel = (\<lambda>m d c. Inr ()),
                    transcribe = (\<lambda>m a b l v. (f (b::int) :: exc + segments \<times> info))\<rparr>"
  let ?a = "\<lambda>b. defaults\<lparr>audio := PyStr (ustr ''a.wav''), beam_size := b\<rparr>"
  have d: "positive_only (-5) \<noteq> positive_only 1"
    by (simp add: positive_only_def)
  have s: "segments_text (SegYield \<lparr>seg_text = PyStr (ustr ''ok'')\<rparr> SegEnd) = Inr (ustr ''ok'')"
    using ok_line(1) by simp
  note th1 = beam_size_clamped [where b = "-5" and env = "answering positive_only"
      and a = "?a (-5)" and au = "PyStr (ustr ''a.wav'')" and w = 1 and l = PyNone and v = True
      and t = "ustr ''-5''" and ?t1.0 = "ustr ''1''" and pre = "[Opt Audio (ustr ''a.wav'')]"
      and post = "[]" and lib = "?lib positive_only" and m = "()"
      and segs = "yields [PyStr (ustr ''ok'')]"
      and i = "\<lparr>info_language = Some (PyStr (ustr ''en''))\<rparr>" and tx = "ustr ''ok''"
      and env' = "answering every_width" and lib' = "?lib every_width"]
  note th2 = beam_size_clamped [where env = "answering refusing_one" and a = "?a 0"
      and lib = "?lib refusing_one" and m = "()" and e = "Exc (ustr ''width 1 refused'')"]
  from th1 [THEN conjunct1]
  have r1: "run (answering positive_only) (?a (-5)) = run (answering positive_only) (?a 1)"
    by simp
  from th1 [THEN conjunct2, THEN conjunct2, THEN conjunct1]
  have r3:
    "main (answering positive_only) ([Opt Audio (ustr ''a.wav'')] @ Opt BeamSize (ustr ''-5'') # [])
     = main (answering positive_only) ([Opt Audio (ustr ''a.wav'')] @ Opt BeamSize (ustr ''1'') # [])"
    by (simp add: answering_fields python_int_tokens)
  from th2 [THEN conjunct2, THEN conjunct2, THEN conjunct2, THEN conjunct1]
  have r4: "run (answering refusing_one) (?a 0)
     = \<lparr>status = 1, stdout = [], stderr = ustr ''transcribe failed: width 1 refused'' @ [10],
        calls = [ImportCall, ModelCall (ustr ''small'') (ustr ''auto'') (ustr ''int8''),
                 TranscribeCall (PyStr (ustr ''a.wav'')) 1 PyNone True]\<rparr>"
    by (simp add: defaults_def py_or_def answering_fields refusing_one_def ustr_def)
  from th1 [THEN conjunct2, THEN conjunct2, THEN conjunct2, THEN conjunct2, THEN conjunct1]
  have r2: "run (answering positive_only) (?a (-5))
     = \<lparr>status = 0, stdout = ustr ''{\"text\": \"ok\", \"language\": \"en\"}'' @ [10], stderr = [],
        calls = [ImportCall, ModelCall (ustr ''small'') (ustr ''auto'') (ustr ''int8''),
                 TranscribeCall (PyStr (ustr ''a.wav'')) 1 PyNone True]\<rparr>"
    by (simp add: defaults_def py_or_def answering_fields positive_only_def s ok_line(2)
                  ok_line_accepted)
  from th1 [THEN conjunct2, THEN conjunct2, THEN conjunct2, THEN conjunct2, THEN conjunct2]
  have r5: "run (answering every_width) (?a (-5)) = run (answering positive_only) (?a (-5))"
    by (simp add: defaults_def py_or_def answering_fields positive_only_def every_width_def)
  have n: "(-5::int) < 1" by simp
  from n d r1 r2 r3 r4 r5 python_int_tokens show ?thesis by blast
qed

subsection \<open>The import that fails\<close>

lemma import_prefix_no_lf: "10 \<notin> set (ustr ''faster-whisper import failed: '')"
  by (simp add: ustr_def)

lemma transcribe_prefix_no_lf: "10 \<notin> set (ustr ''transcribe failed: '')"
  by (simp add: ustr_def)

lemma single_line_message:
  "10 \<notin> set p \<Longrightarrow> single_line (p @ s @ [10]) \<longleftrightarrow> 10 \<notin> set s"
  using single_line_print [of "p @ s"] by (simp add: print_line_def)

text \<open>
  Claim C5: when the import of line 24 raises, \<open>main\<close> returns 2, nothing is written on
  the standard output, and the standard error holds what the one \<open>print\<close> of line 26
  writes: the prefix \<open>faster-whisper import failed: \<close>, the text of the exception and a
  line feed. No model is built and nothing is transcribed: the import is the only call.
  That output is a single line exactly when the text of the exception holds no line
  feed.
\<close>

theorem import_failure:
  assumes "parse_args (py_int env) argv = Parsed a"
    and "import_faster_whisper env = Inl e"
  shows "main env argv =
           Returned \<lparr>status = 2, stdout = [],
                     stderr = ustr ''faster-whisper import failed: '' @ exc_str e @ [10],
                     calls = [ImportCall]\<rparr> \<and>
         exit_status (main env argv) = 2 \<and>
         library_calls (main env argv) = [ImportCall] \<and>
         single_line (ustr ''faster-whisper import failed: '' @ exc_str e @ [10])
           = (10 \<notin> set (exc_str e))"
  using assms
  by (simp add: main_parsed run_import_failed single_line_message import_prefix_no_lf)

text \<open>
  The import of a package whose compiled part does not load raises with a text of more
  than one line: then the standard error holds more than one line.
\<close>

theorem import_failure_counterexample:
  "main (missing_env (Exc (ustr ''cannot load library'' @ [10] @ ustr ''libctranslate2.so'')))
        [Opt Audio (ustr ''a.wav'')]
     = Returned \<lparr>status = 2, stdout = [],
         stderr = ustr ''faster-whisper import failed: cannot load library'' @ [10] @
                  ustr ''libctranslate2.so'' @ [10],
         calls = [ImportCall]\<rparr>
   \<and> \<not> single_line (ustr ''faster-whisper import failed: cannot load library'' @ [10] @
                  ustr ''libctranslate2.so'' @ [10])"
  by (simp add: main_def parse_args_def defaults_def run_def missing_env_def print_line_def
                single_line_def ustr_def)

theorem import_failure_witness:
  "parse_args (py_int (missing_env (Exc (ustr ''No module named faster_whisper''))))
       [Opt Audio (ustr ''a.wav'')] = Parsed (defaults\<lparr>audio := PyStr (ustr ''a.wav'')\<rparr>) \<and>
   import_faster_whisper (missing_env (Exc (ustr ''No module named faster_whisper'')))
     = Inl (Exc (ustr ''No module named faster_whisper'')) \<and>
   main (missing_env (Exc (ustr ''No module named faster_whisper''))) [Opt Audio (ustr ''a.wav'')]
     = Returned \<lparr>status = 2, stdout = [],
         stderr = ustr ''faster-whisper import failed: '' @
                  ustr ''No module named faster_whisper'' @ [10],
         calls = [ImportCall]\<rparr> \<and>
   exit_status (main (missing_env (Exc (ustr ''No module named faster_whisper'')))
                  [Opt Audio (ustr ''a.wav'')]) = 2 \<and>
   single_line (ustr ''faster-whisper import failed: '' @
                ustr ''No module named faster_whisper'' @ [10])"
proof -
  let ?e = "Exc (ustr ''No module named faster_whisper'')"
  let ?env = "missing_env ?e"
  let ?a = "defaults\<lparr>audio := PyStr (ustr ''a.wav'')\<rparr>"
  have p: "parse_args (py_int ?env) [Opt Audio (ustr ''a.wav'')] = Parsed ?a"
    by (simp add: parse_args_def)
  have i: "import_faster_whisper ?env = Inl ?e"
    by (simp add: missing_env_def)
  have n: "10 \<notin> set (exc_str ?e)" by (simp add: ustr_def)
  note th = import_failure [OF p i]
  from th [THEN conjunct1]
  have m: "main ?env [Opt Audio (ustr ''a.wav'')]
     = Returned \<lparr>status = 2, stdout = [],
         stderr = ustr ''faster-whisper import failed: '' @
                  ustr ''No module named faster_whisper'' @ [10],
         calls = [ImportCall]\<rparr>"
    by simp
  from th [THEN conjunct2, THEN conjunct1]
  have x: "exit_status (main ?env [Opt Audio (ustr ''a.wav'')]) = 2" .
  from th [THEN conjunct2, THEN conjunct2, THEN conjunct2] n
  have sl: "single_line (ustr ''faster-whisper import failed: '' @
                ustr ''No module named faster_whisper'' @ [10])"
    by simp
  from p i m x sl show ?thesis by blast
qed

subsection \<open>The transcription that fails\<close>

text \<open>
  Claim C6: when \<open>WhisperModel\<close> raises, when \<open>transcribe\<close> raises, or when the
  segments raise while line 37 reads them, \<open>main\<close> returns 1, nothing is written on the
  standard output, and the standard error holds what the one \<open>print\<close> of line 45
  writes: the prefix \<open>transcribe failed: \<close>, the text of the exception and a line feed.
  The three cases end alike, and each call of the library is made once: the model is
  built once, and \<open>transcribe\<close> is called once if the model was built. That output is a
  single line exactly when the text of the exception holds no line feed.
\<close>

theorem transcribe_failure:
  assumes "parse_args (py_int env) argv = Parsed a"
    and "import_faster_whisper env = Inr lib"
  shows "(WhisperModel lib (model a) (device a) (compute_type a) = Inl e \<longrightarrow>
            main env argv =
              Returned \<lparr>status = 1, stdout = [],
                        stderr = ustr ''transcribe failed: '' @ exc_str e @ [10],
                        calls = [ImportCall, ModelCall (model a) (device a) (compute_type a)]\<rparr>) \<and>
         (WhisperModel lib (model a) (device a) (compute_type a) = Inr m \<and>
          (transcribe lib m (audio a) (max 1 (beam_size a)) (py_or (language a) PyNone)
             (vad_filter a = ustr ''true'') = Inl e \<or>
           transcribe lib m (audio a) (max 1 (beam_size a)) (py_or (language a) PyNone)
             (vad_filter a = ustr ''true'') = Inr (segs, i) \<and> raised segs = Some e) \<longrightarrow>
            main env argv =
              Returned \<lparr>status = 1, stdout = [],
                        stderr = ustr ''transcribe failed: '' @ exc_str e @ [10],
                        calls = [ImportCall, ModelCall (model a) (device a) (compute_type a),
                                 TranscribeCall (audio a) (max 1 (beam_size a))
                                   (py_or (language a) PyNone)
                                   (vad_filter a = ustr ''true'')]\<rparr>) \<and>
         single_line (ustr ''transcribe failed: '' @ exc_str e @ [10]) = (10 \<notin> set (exc_str e))"
proof (intro conjI impI)
  assume "WhisperModel lib (model a) (device a) (compute_type a) = Inl e"
  then have "try_transcribe (stdout_refuses env) lib a (vad_filter a = ustr ''true'')
               = (Inl e, [ModelCall (model a) (device a) (compute_type a)])"
    by (rule try_model_raises)
  with assms show "main env argv =
              Returned \<lparr>status = 1, stdout = [],
                        stderr = ustr ''transcribe failed: '' @ exc_str e @ [10],
                        calls = [ImportCall, ModelCall (model a) (device a) (compute_type a)]\<rparr>"
    by (simp add: main_parsed run_failed)
next
  assume h: "WhisperModel lib (model a) (device a) (compute_type a) = Inr m \<and>
          (transcribe lib m (audio a) (max 1 (beam_size a)) (py_or (language a) PyNone)
             (vad_filter a = ustr ''true'') = Inl e \<or>
           transcribe lib m (audio a) (max 1 (beam_size a)) (py_or (language a) PyNone)
             (vad_filter a = ustr ''true'') = Inr (segs, i) \<and> raised segs = Some e)"
  then have w: "WhisperModel lib (model a) (device a) (compute_type a) = Inr m" by simp
  from h have "transcribe lib m (audio a) (max 1 (beam_size a)) (py_or (language a) PyNone)
             (vad_filter a = ustr ''true'') = Inl e \<or>
           transcribe lib m (audio a) (max 1 (beam_size a)) (py_or (language a) PyNone)
             (vad_filter a = ustr ''true'') = Inr (segs, i) \<and> raised segs = Some e"
    by simp
  then have "try_transcribe (stdout_refuses env) lib a (vad_filter a = ustr ''true'')
               = (Inl e, [ModelCall (model a) (device a) (compute_type a),
                          TranscribeCall (audio a) (max 1 (beam_size a))
                            (py_or (language a) PyNone) (vad_filter a = ustr ''true'')])"
  proof
    assume "transcribe lib m (audio a) (max 1 (beam_size a)) (py_or (language a) PyNone)
             (vad_filter a = ustr ''true'') = Inl e"
    with w show ?thesis by (rule try_transcribe_raises)
  next
    assume "transcribe lib m (audio a) (max 1 (beam_size a)) (py_or (language a) PyNone)
             (vad_filter a = ustr ''true'') = Inr (segs, i) \<and> raised segs = Some e"
    then have t: "transcribe lib m (audio a) (max 1 (beam_size a)) (py_or (language a) PyNone)
             (vad_filter a = ustr ''true'') = Inr (segs, i)"
      and r: "raised segs = Some e" by simp_all
    from w t r show ?thesis by (rule try_segments_raise)
  qed
  with assms show "main env argv =
              Returned \<lparr>status = 1, stdout = [],
                        stderr = ustr ''transcribe failed: '' @ exc_str e @ [10],
                        calls = [ImportCall, ModelCall (model a) (device a) (compute_type a),
                                 TranscribeCall (audio a) (max 1 (beam_size a))
                                   (py_or (language a) PyNone)
                                   (vad_filter a = ustr ''true'')]\<rparr>"
    by (simp add: main_parsed run_failed)
next
  show "single_line (ustr ''transcribe failed: '' @ exc_str e @ [10]) = (10 \<notin> set (exc_str e))"
    by (simp add: single_line_message transcribe_prefix_no_lf)
qed

text \<open>
  A model that is not found raises with a text of more than one line: then the standard
  error holds more than one line.
\<close>

theorem transcribe_failure_counterexample:
  "main (modelless_env (Exc (ustr ''Repository Not Found'' @ [10] @ ustr ''Please check the name'')))
        [Opt Audio (ustr ''a.wav''), Opt Model (ustr ''none'')]
     = Returned \<lparr>status = 1, stdout = [],
         stderr = ustr ''transcribe failed: Repository Not Found'' @ [10] @
                  ustr ''Please check the name'' @ [10],
         calls = [ImportCall, ModelCall (ustr ''none'') (ustr ''auto'') (ustr ''int8'')]\<rparr>
   \<and> \<not> single_line (ustr ''transcribe failed: Repository Not Found'' @ [10] @
                  ustr ''Please check the name'' @ [10])"
  by (simp add: main_def parse_args_def defaults_def run_def try_transcribe_def modelless_env_def
                print_line_def single_line_def ustr_def)

theorem transcribe_failure_witness:
  "main (modelless_env (Exc (ustr ''no such model''))) [Opt Audio (ustr ''a.wav'')]
     = Returned \<lparr>status = 1, stdout = [],
         stderr = ustr ''transcribe failed: '' @ ustr ''no such model'' @ [10],
         calls = [ImportCall, ModelCall (ustr ''small'') (ustr ''auto'') (ustr ''int8'')]\<rparr> \<and>
   main (answering refusing_one) [Opt Audio (ustr ''a.wav'')]
     = Returned \<lparr>status = 1, stdout = [],
         stderr = ustr ''transcribe failed: '' @ ustr ''width 1 refused'' @ [10],
         calls = [ImportCall, ModelCall (ustr ''small'') (ustr ''auto'') (ustr ''int8''),
                  TranscribeCall (PyStr (ustr ''a.wav'')) 1 PyNone True]\<rparr> \<and>
   main (raising_env (Exc (ustr ''Invalid data found''))) [Opt Audio (ustr ''a.wav'')]
     = Returned \<lparr>status = 1, stdout = [],
         stderr = ustr ''transcribe failed: '' @ ustr ''Invalid data found'' @ [10],
         calls = [ImportCall, ModelCall (ustr ''small'') (ustr ''auto'') (ustr ''int8''),
                  TranscribeCall (PyStr (ustr ''a.wav'')) 1 PyNone True]\<rparr> \<and>
   single_line (ustr ''transcribe failed: '' @ ustr ''Invalid data found'' @ [10])"
proof -
  let ?argv = "[Opt Audio (ustr ''a.wav'')]"
  let ?a = "defaults\<lparr>audio := PyStr (ustr ''a.wav'')\<rparr>"
  let ?lib = "\<lambda>f. \<lparr>WhisperModel = (\<lambda>m d c. Inr ()),
                    transcribe = (\<lambda>m a b l v. (f (b::int) :: exc + segments \<times> info))\<rparr>"
  let ?e1 = "Exc (ustr ''no such model'')"
  let ?e3 = "Exc (ustr ''Invalid data found'')"
  let ?segs = "SegYield \<lparr>seg_text = PyStr (ustr ''ok'')\<rparr> (SegRaise ?e3)"
  have p: "parse_args (py_int env) ?argv = Parsed ?a" for env :: "unit env"
    by (simp add: parse_args_def)
  have i1: "import_faster_whisper (modelless_env ?e1)
      = Inr \<lparr>WhisperModel = (\<lambda>m d c. Inl ?e1),
             transcribe = (\<lambda>m a b l v. Inr (SegEnd, \<lparr>info_language = None\<rparr>))\<rparr>"
    by (simp add: modelless_env_def)
  have i2: "import_faster_whisper (answering refusing_one) = Inr (?lib refusing_one)"
    by (simp add: answering_fields)
  have i3: "import_faster_whisper (raising_env ?e3)
      = Inr (?lib (\<lambda>w. Inr (?segs, \<lparr>info_language = None\<rparr>)))"
    by (simp add: raising_env_def answering_fields)
  have n: "10 \<notin> set (exc_str ?e3)" by (simp add: ustr_def)
  note th1 = transcribe_failure [OF p i1, where e = ?e1]
  note th2 = transcribe_failure [OF p i2, where e = "Exc (ustr ''width 1 refused'')" and m = "()"]
  note th3 = transcribe_failure [OF p i3, where e = ?e3 and m = "()" and segs = ?segs
      and i = "\<lparr>info_language = None\<rparr>"]
  from th1 [THEN conjunct1]
  have r1: "main (modelless_env ?e1) ?argv
     = Returned \<lparr>status = 1, stdout = [],
         stderr = ustr ''transcribe failed: '' @ ustr ''no such model'' @ [10],
         calls = [ImportCall, ModelCall (ustr ''small'') (ustr ''auto'') (ustr ''int8'')]\<rparr>"
    by (simp add: defaults_def)
  from th2 [THEN conjunct2, THEN conjunct1]
  have r2: "main (answering refusing_one) ?argv
     = Returned \<lparr>status = 1, stdout = [],
         stderr = ustr ''transcribe failed: '' @ ustr ''width 1 refused'' @ [10],
         calls = [ImportCall, ModelCall (ustr ''small'') (ustr ''auto'') (ustr ''int8''),
                  TranscribeCall (PyStr (ustr ''a.wav'')) 1 PyNone True]\<rparr>"
    by (simp add: defaults_def py_or_def refusing_one_def)
  from th3 [THEN conjunct2, THEN conjunct1]
  have r3: "main (raising_env ?e3) ?argv
     = Returned \<lparr>status = 1, stdout = [],
         stderr = ustr ''transcribe failed: '' @ ustr ''Invalid data found'' @ [10],
         calls = [ImportCall, ModelCall (ustr ''small'') (ustr ''auto'') (ustr ''int8''),
                  TranscribeCall (PyStr (ustr ''a.wav'')) 1 PyNone True]\<rparr>"
    by (simp add: defaults_def py_or_def)
  from th3 [THEN conjunct2, THEN conjunct2] n
  have r4: "single_line (ustr ''transcribe failed: '' @ ustr ''Invalid data found'' @ [10])"
    by simp
  from r1 r2 r3 r4 show ?thesis by blast
qed

subsection \<open>The command lines that the parser refuses\<close>














end
